theory Spec2Isabelle
  imports Main "HOL-Library.Sublist"
begin

section \<open>Python values used by \<^verbatim>\<open>server.py\<close>\<close>

text \<open>
  A Python \<^verbatim>\<open>str\<close> is a list of characters, one \<^typ>\<open>char\<close> per code point, so that
  \<^const>\<open>length\<close> is Python's \<^verbatim>\<open>len\<close>. The model covers the code points below 256
  (Latin-1), on which \<^verbatim>\<open>str.lower\<close> and \<^verbatim>\<open>str.strip\<close> act as defined below.
\<close>

definition lower_char :: "char \<Rightarrow> char" where
  "lower_char c =
     (let n = (of_char c :: nat)
      in if (65 \<le> n \<and> n \<le> 90) \<or> (192 \<le> n \<and> n \<le> 222 \<and> n \<noteq> 215)
         then char_of (n + 32) else c)"

definition lower :: "string \<Rightarrow> string" where
  \<comment> \<open>\<^verbatim>\<open>s.lower()\<close>\<close>
  "lower s = map lower_char s"

definition replace_char :: "char \<Rightarrow> char \<Rightarrow> string \<Rightarrow> string" where
  \<comment> \<open>\<^verbatim>\<open>s.replace(a, b)\<close> for one-character \<^verbatim>\<open>a\<close> and \<^verbatim>\<open>b\<close>\<close>
  "replace_char a b s = map (\<lambda>c. if c = a then b else c) s"

fun startswith :: "string \<Rightarrow> string \<Rightarrow> bool" where
  \<comment> \<open>\<^verbatim>\<open>s.startswith(p)\<close>\<close>
  "startswith s [] = True"
| "startswith [] (p # ps) = False"
| "startswith (c # cs) (p # ps) = (c = p \<and> startswith cs ps)"

fun contains :: "string \<Rightarrow> string \<Rightarrow> bool" where
  \<comment> \<open>\<^verbatim>\<open>sub in s\<close> on strings: \<^verbatim>\<open>sub\<close> occurs in \<^verbatim>\<open>s\<close> as a contiguous run\<close>
  "contains sub [] = (sub = [])"
| "contains sub (c # cs) = (startswith (c # cs) sub \<or> contains sub cs)"

definition slice_to :: "int \<Rightarrow> 'a list \<Rightarrow> 'a list" where
  \<comment> \<open>\<^verbatim>\<open>xs[:n]\<close>: a negative \<^verbatim>\<open>n\<close> counts from the end\<close>
  "slice_to n xs =
     (if 0 \<le> n then take (nat n) xs else take (nat (int (length xs) + n)) xs)"

fun str_nat :: "nat \<Rightarrow> string" where
  \<comment> \<open>\<^verbatim>\<open>str(n)\<close> for a non-negative integer: its decimal digits\<close>
  "str_nat n =
     (if n < 10 then [char_of (48 + n)]
      else str_nat (n div 10) @ [char_of (48 + n mod 10)])"

declare str_nat.simps [simp del]

text \<open>
  What \<^verbatim>\<open>response.json()\<close> returns: \<^verbatim>\<open>None\<close>, \<^verbatim>\<open>bool\<close>, \<^verbatim>\<open>int\<close>, \<^verbatim>\<open>float\<close> (kept
  as its literal, its value plays no role here), \<^verbatim>\<open>str\<close>, \<^verbatim>\<open>list\<close> and \<^verbatim>\<open>dict\<close>. A
  dict is its list of items in insertion order, keys distinct; the records the
  program builds itself are dicts too.
\<close>

datatype json =
    JNull
  | JBool bool
  | JInt int
  | JFloat string
  | JStr string
  | JArr "json list"
  | JObj "(string \<times> json) list"

definition dict_get :: "(string \<times> json) list \<Rightarrow> string \<Rightarrow> json \<Rightarrow> json" where
  \<comment> \<open>\<^verbatim>\<open>d.get(key, default)\<close> on a dict\<close>
  "dict_get d key dflt = (case map_of d key of None \<Rightarrow> dflt | Some v \<Rightarrow> v)"

fun type_name :: "json \<Rightarrow> string" where
  \<comment> \<open>\<^verbatim>\<open>type(v).__name__\<close>\<close>
  "type_name JNull = ''NoneType''"
| "type_name (JBool b) = ''bool''"
| "type_name (JInt i) = ''int''"
| "type_name (JFloat f) = ''float''"
| "type_name (JStr s) = ''str''"
| "type_name (JArr xs) = ''list''"
| "type_name (JObj d) = ''dict''"

text \<open>The exceptions the tool functions can meet on a malformed payload.\<close>

datatype exn =
    AttributeError string string  \<comment> \<open>type name, attribute\<close>
  | NotIterable string            \<comment> \<open>a \<^verbatim>\<open>TypeError\<close>: type name\<close>

fun str_exn :: "exn \<Rightarrow> string" where
  \<comment> \<open>\<^verbatim>\<open>str(e)\<close>\<close>
  "str_exn (AttributeError t a) =
     [CHR 0x27] @ t @ [CHR 0x27] @ '' object has no attribute '' @ [CHR 0x27] @ a @ [CHR 0x27]"
| "str_exn (NotIterable t) = [CHR 0x27] @ t @ [CHR 0x27] @ '' object is not iterable''"

fun py_iter :: "json \<Rightarrow> exn + json list" where
  \<comment> \<open>the items a \<^verbatim>\<open>for\<close> loop over the value visits\<close>
  "py_iter (JArr xs) = Inr xs"
| "py_iter (JObj d) = Inr (map (\<lambda>kv. JStr (fst kv)) d)"
| "py_iter (JStr s) = Inr (map (\<lambda>c. JStr [c]) s)"
| "py_iter v = Inl (NotIterable (type_name v))"

fun py_get :: "json \<Rightarrow> string \<Rightarrow> json \<Rightarrow> exn + json" where
  \<comment> \<open>\<^verbatim>\<open>v.get(key, default)\<close>: only a dict has the method\<close>
  "py_get (JObj d) key dflt = Inr (dict_get d key dflt)"
| "py_get v key dflt = Inl (AttributeError (type_name v) ''get'')"

fun py_lower :: "json \<Rightarrow> exn + string" where
  \<comment> \<open>\<^verbatim>\<open>v.lower()\<close>: only a str has the method\<close>
  "py_lower (JStr s) = Inr (lower s)"
| "py_lower v = Inl (AttributeError (type_name v) ''lower'')"

section \<open>The network, as the client sees it\<close>

text \<open>
  A GET request is its URL and its query parameters. The reply to
  \<^verbatim>\<open>session.get\<close> is either a response with a status, whose body is read and
  decoded only on demand (and reading it can raise: \<^const>\<open>Inl\<close> the message), or an
  exception raised by the transport, given by its \<^verbatim>\<open>str(e)\<close>.
\<close>

datatype param = PStr string | PInt int

datatype request = Get (req_url: string) (req_params: "(string \<times> param) list")

datatype 'b reply = Reply nat "string + 'b" | Raised string

text \<open>
  \<^verbatim>\<open>MicrosoftDocsClient\<close>: whether \<^verbatim>\<open>self.session\<close> has been created, and (a ghost
  field) the requests issued so far, oldest first.
\<close>

record client =
  session_open :: bool
  requested :: "request list"

definition new_client :: client where
  \<comment> \<open>\<^verbatim>\<open>__init__\<close>\<close>
  "new_client = \<lparr>session_open = False, requested = []\<rparr>"

definition get_session :: "client \<Rightarrow> client" where
  "get_session c = (if session_open c then c else c\<lparr>session_open := True\<rparr>)"

definition issue :: "request \<Rightarrow> client \<Rightarrow> client" where
  "issue r c = c\<lparr>requested := requested c @ [r]\<rparr>"

section \<open>The fetch client: search\<close>

definition DOCS_BASE_URL :: string where
  "DOCS_BASE_URL = ''https://docs.microsoft.com''"

definition LEARN_BASE_URL :: string where
  "LEARN_BASE_URL = ''https://learn.microsoft.com''"

definition slug :: "string \<Rightarrow> string" where
  \<comment> \<open>\<^verbatim>\<open>query.lower().replace(' ', '-')\<close>\<close>
  "slug query = replace_char CHR '' '' CHR ''-'' (lower query)"

definition product_or_general :: "string \<Rightarrow> string" where
  \<comment> \<open>\<^verbatim>\<open>product or "General"\<close>\<close>
  "product_or_general product = (if product = [] then ''General'' else product)"

definition mock_results :: "string \<Rightarrow> string \<Rightarrow> json list" where
  "mock_results query product =
     [JObj [(''title'', JStr (''Microsoft Documentation: '' @ query)),
            (''url'', JStr (LEARN_BASE_URL @ ''/en-us/docs/'' @ slug query)),
            (''description'', JStr (''Documentation about '' @ query @ '' in Microsoft products'')),
            (''lastUpdated'', JStr ''2024-01-01T00:00:00Z''),
            (''product'', JStr (product_or_general product))],
      JObj [(''title'', JStr (query @ '' - Getting Started Guide'')),
            (''url'', JStr (LEARN_BASE_URL @ ''/en-us/docs/'' @ slug query @ ''/getting-started'')),
            (''description'', JStr (''Getting started guide for '' @ query)),
            (''lastUpdated'', JStr ''2024-01-01T00:00:00Z''),
            (''product'', JStr (product_or_general product))],
      JObj [(''title'', JStr (query @ '' - Code Examples'')),
            (''url'', JStr (LEARN_BASE_URL @ ''/en-us/samples/'' @ slug query)),
            (''description'', JStr (''Code examples and samples for '' @ query)),
            (''lastUpdated'', JStr ''2024-01-01T00:00:00Z''),
            (''product'', JStr (product_or_general product))]]"

definition fallback_search :: "string \<Rightarrow> string \<Rightarrow> int \<Rightarrow> json" where
  \<comment> \<open>\<^verbatim>\<open>_fallback_search\<close>\<close>
  "fallback_search query product max_results =
     JArr (slice_to max_results (mock_results query product))"

definition search_request :: "string \<Rightarrow> string \<Rightarrow> string \<Rightarrow> int \<Rightarrow> request" where
  "search_request query product language max_results =
     Get (LEARN_BASE_URL @ ''/api/search'')
         ([(''search'', PStr query), (''locale'', PStr language), (''$top'', PInt max_results)]
          @ (if product \<noteq> [] then [(''products'', PStr product)] else []))"

definition search_docs ::
  "(request \<Rightarrow> json reply) \<Rightarrow> client \<Rightarrow> string \<Rightarrow> string \<Rightarrow> string \<Rightarrow> int \<Rightarrow> json \<times> client" where
  "search_docs net c query product language max_results =
     (let c1 = get_session c;
          req = search_request query product language max_results;
          c2 = issue req c1
      in case net req of
           Reply status body \<Rightarrow>
             if status = 200 then
               (case body of
                  Inr data \<Rightarrow>
                    (case py_get data ''results'' (JArr []) of
                       Inr results \<Rightarrow> (results, c2)
                     | Inl e \<Rightarrow> (fallback_search query product max_results, c2))
                | Inl e \<Rightarrow> (fallback_search query product max_results, c2))
             else (fallback_search query product max_results, c2)
         | Raised e \<Rightarrow> (fallback_search query product max_results, c2))"

section \<open>The tool facade: search\<close>

definition format_result :: "json \<Rightarrow> exn + json" where
  "format_result result =
     (case py_get result ''title'' (JStr ''No title'') of Inl e \<Rightarrow> Inl e | Inr t \<Rightarrow>
     (case py_get result ''url'' (JStr []) of Inl e \<Rightarrow> Inl e | Inr u \<Rightarrow>
     (case py_get result ''description'' (JStr ''No description available'') of Inl e \<Rightarrow> Inl e | Inr d \<Rightarrow>
     (case py_get result ''lastUpdated'' (JStr ''Unknown'') of Inl e \<Rightarrow> Inl e | Inr l \<Rightarrow>
     (case py_get result ''product'' (JStr ''General'') of Inl e \<Rightarrow> Inl e | Inr p \<Rightarrow>
        Inr (JObj [(''title'', t), (''url'', u), (''description'', d),
                   (''lastUpdated'', l), (''product'', p)]))))))"

fun format_results :: "json list \<Rightarrow> exn + json list" where
  \<comment> \<open>the loop filling \<^verbatim>\<open>formatted_results\<close>; an exception leaves it\<close>
  "format_results [] = Inr []"
| "format_results (r # rs) =
     (case format_result r of
        Inl e \<Rightarrow> Inl e
      | Inr f \<Rightarrow> (case format_results rs of Inl e \<Rightarrow> Inl e | Inr fs \<Rightarrow> Inr (f # fs)))"

definition clamp_max_results :: "int \<Rightarrow> int" where
  \<comment> \<open>\<^verbatim>\<open>max_results = min(max_results, 10)\<close>\<close>
  "clamp_max_results max_results = min max_results 10"

definition search_failed :: "exn \<Rightarrow> json list" where
  "search_failed e = [JObj [(''error'', JStr (''Search failed: '' @ str_exn e))]]"

definition format_search_results :: "json \<Rightarrow> json list" where
  \<comment> \<open>the body of \<^verbatim>\<open>search_microsoft_docs\<close> after the search, with its exception handler\<close>
  "format_search_results results =
     (case py_iter results of
        Inl e \<Rightarrow> search_failed e
      | Inr rs \<Rightarrow>
          (case format_results rs of
             Inl e \<Rightarrow> search_failed e
           | Inr formatted \<Rightarrow> formatted))"

definition search_microsoft_docs ::
  "(request \<Rightarrow> json reply) \<Rightarrow> client \<Rightarrow> string \<Rightarrow> string \<Rightarrow> string \<Rightarrow> int \<Rightarrow> json list \<times> client" where
  "search_microsoft_docs net c query product language max_results =
     (let found = search_docs net c query product language (clamp_max_results max_results)
      in (format_search_results (fst found), snd found))"

section \<open>Parsed HTML, as \<^verbatim>\<open>BeautifulSoup\<close> presents it\<close>

text \<open>
  The parser and the tree operations belong to the library, not to this program;
  they are modelled here as far as \<^verbatim>\<open>get_page_content\<close> uses them. A node is a
  text string or a tag with its name, its attributes and its children; each node
  carries the identity of the Python object (a number), since \<^verbatim>\<open>decompose\<close> works
  on objects, not on values. \<^verbatim>\<open>Text\<close> stands for the strings \<^verbatim>\<open>get_text\<close> yields.
\<close>

datatype node =
    Text nat string
  | Element nat string "(string \<times> string) list" "node list"

fun node_id :: "node \<Rightarrow> nat" where
  "node_id (Text i s) = i"
| "node_id (Element i t a ks) = i"

definition is_space :: "char \<Rightarrow> bool" where
  \<comment> \<open>\<^verbatim>\<open>c.isspace()\<close> on the code points below 256\<close>
  "is_space c =
     (let n = (of_char c :: nat)
      in (9 \<le> n \<and> n \<le> 13) \<or> (28 \<le> n \<and> n \<le> 32) \<or> n = 133 \<or> n = 160)"

definition strip :: "string \<Rightarrow> string" where
  \<comment> \<open>\<^verbatim>\<open>s.strip()\<close>\<close>
  "strip s = rev (dropWhile is_space (rev (dropWhile is_space s)))"

fun join :: "string \<Rightarrow> string list \<Rightarrow> string" where
  \<comment> \<open>\<^verbatim>\<open>sep.join(xs)\<close>\<close>
  "join sep [] = []"
| "join sep [x] = x"
| "join sep (x # y # ys) = x @ sep @ join sep (y # ys)"

fun tokens_from :: "string \<Rightarrow> string \<Rightarrow> string list" where
  \<comment> \<open>the maximal runs of non-space characters; the first argument is the run being read\<close>
  "tokens_from cur [] = (if cur = [] then [] else [cur])"
| "tokens_from cur (c # cs) =
     (if is_space c then (if cur = [] then tokens_from [] cs else cur # tokens_from [] cs)
      else tokens_from (cur @ [c]) cs)"

definition class_tokens :: "string \<Rightarrow> string list" where
  \<comment> \<open>the value of a \<^verbatim>\<open>class\<close> attribute, split at white space\<close>
  "class_tokens v = tokens_from [] v"

text \<open>The four kinds of simple CSS selector the program writes.\<close>

datatype selector =
    TagAttr string string string  \<comment> \<open>\<^verbatim>\<open>tag[attr="value"]\<close>\<close>
  | ClassSel string               \<comment> \<open>\<^verbatim>\<open>.name\<close>\<close>
  | TagSel string                 \<comment> \<open>\<^verbatim>\<open>tag\<close>\<close>
  | IdSel string                  \<comment> \<open>\<^verbatim>\<open>#name\<close>\<close>

fun matches :: "selector \<Rightarrow> node \<Rightarrow> bool" where
  "matches sel (Text i s) = False"
| "matches (TagAttr t a v) (Element i tag attrs ks) = (tag = t \<and> map_of attrs a = Some v)"
| "matches (ClassSel c) (Element i tag attrs ks) =
     (case map_of attrs ''class'' of None \<Rightarrow> False | Some v \<Rightarrow> List.member (class_tokens v) c)"
| "matches (TagSel t) (Element i tag attrs ks) = (tag = t)"
| "matches (IdSel x) (Element i tag attrs ks) = (map_of attrs ''id'' = Some x)"

definition matches_any :: "selector list \<Rightarrow> node \<Rightarrow> bool" where
  \<comment> \<open>a selector group \<^verbatim>\<open>a, b, c\<close>\<close>
  "matches_any sels n = list_ex (\<lambda>sel. matches sel n) sels"

fun descendants :: "node \<Rightarrow> node list" where
  \<comment> \<open>the nodes strictly below a node, in document order\<close>
  "descendants (Text i s) = []"
| "descendants (Element i t a ks) = concat (map (\<lambda>k. k # descendants k) ks)"

definition select_one :: "selector \<Rightarrow> node list \<Rightarrow> node option" where
  \<comment> \<open>\<^verbatim>\<open>soup.select_one(sel)\<close>: the first match in document order; the soup is the list
      of its top-level nodes\<close>
  "select_one sel soup = find (matches sel) (concat (map (\<lambda>k. k # descendants k) soup))"

definition select :: "selector list \<Rightarrow> node \<Rightarrow> node list" where
  \<comment> \<open>\<^verbatim>\<open>element.select(group)\<close>: the matching nodes strictly below the element\<close>
  "select sels element = filter (matches_any sels) (descendants element)"

fun decompose :: "nat \<Rightarrow> node \<Rightarrow> node" where
  \<comment> \<open>\<^verbatim>\<open>unwanted.decompose()\<close>, seen from the element above: the object with this identity
      leaves its parent's children; nothing happens when it is no longer in the tree\<close>
  "decompose u (Text i s) = Text i s"
| "decompose u (Element i t a ks) =
     Element i t a (map (decompose u) (filter (\<lambda>k. node_id k \<noteq> u) ks))"

fun all_strings :: "node \<Rightarrow> (nat \<times> string) list" where
  \<comment> \<open>the text nodes at or below a node, in document order, each with its identity\<close>
  "all_strings (Text i s) = [(i, s)]"
| "all_strings (Element i t a ks) = concat (map all_strings ks)"

definition get_text :: "node \<Rightarrow> string" where
  \<comment> \<open>\<^verbatim>\<open>element.get_text(strip=True, separator='\n')\<close>\<close>
  "get_text element =
     join [CHR 0x0A] (filter (\<lambda>s. s \<noteq> []) (map (\<lambda>p. strip (snd p)) (all_strings element)))"

section \<open>The fetch client: page content\<close>

definition content_selectors :: "selector list" where
  "content_selectors =
     [TagAttr ''main'' ''role'' ''main'', ClassSel ''content'', TagSel ''article'',
      IdSel ''main-content'']"

definition unwanted_selectors :: "selector list" where
  \<comment> \<open>\<^verbatim>\<open>'nav, .breadcrumb, .alert, .feedback-section'\<close>\<close>
  "unwanted_selectors =
     [TagSel ''nav'', ClassSel ''breadcrumb'', ClassSel ''alert'', ClassSel ''feedback-section'']"

definition remove_unwanted :: "node \<Rightarrow> node" where
  \<comment> \<open>the inner loop: every node \<^verbatim>\<open>select\<close> returned is decomposed, in order\<close>
  "remove_unwanted element =
     fold (\<lambda>unwanted e. decompose (node_id unwanted) e) (select unwanted_selectors element) element"

fun extract_content :: "selector list \<Rightarrow> node list \<Rightarrow> string \<times> selector list" where
  \<comment> \<open>the loop over \<^verbatim>\<open>content_selectors\<close>: the content, and (a ghost result) the
      selectors handed to \<^verbatim>\<open>select_one\<close>, in order; a tag that was found is true in
      \<^verbatim>\<open>if element\<close>, whatever its children\<close>
  "extract_content [] soup = ([], [])"
| "extract_content (sel # sels) soup =
     (case select_one sel soup of
        Some element \<Rightarrow> (get_text (remove_unwanted element), [sel])
      | None \<Rightarrow> (case extract_content sels soup of (content, tried) \<Rightarrow> (content, sel # tried)))"

definition get_page_content ::
  "(request \<Rightarrow> node list reply) \<Rightarrow> client \<Rightarrow> string \<Rightarrow> string \<times> client" where
  "get_page_content net c url =
     (let c1 = get_session c;
          req = Get url [];
          c2 = issue req c1
      in case net req of
           Reply status body \<Rightarrow>
             if status = 200 then
               (case body of
                  Inr soup \<Rightarrow> (take 5000 (fst (extract_content content_selectors soup)), c2)
                | Inl e \<Rightarrow> (''Error fetching content: '' @ e, c2))
             else (''Error fetching content: HTTP '' @ str_nat status, c2)
         | Raised e \<Rightarrow> (''Error fetching content: '' @ e, c2))"

section \<open>The tool facade: page content and code examples\<close>

text \<open>
  \<^verbatim>\<open>get_documentation_content\<close> wraps its body in a handler for any exception;
  \<^const>\<open>get_page_content\<close> returns a string on every path, so the handler has no
  branch here.
\<close>

definition get_documentation_content ::
  "(request \<Rightarrow> node list reply) \<Rightarrow> client \<Rightarrow> string \<Rightarrow> string \<times> client" where
  "get_documentation_content net c url =
     (if \<not> (startswith url ''https://docs.microsoft.com''
             \<or> startswith url ''https://learn.microsoft.com'')
      then (''Error: URL must be from docs.microsoft.com or learn.microsoft.com'', c)
      else get_page_content net c url)"

definition build_query :: "string \<Rightarrow> string \<Rightarrow> string \<Rightarrow> string" where
  "build_query technology programming_language scenario =
     join '' ''
       ([technology]
        @ (if programming_language \<noteq> [] then [programming_language] else [])
        @ (if scenario \<noteq> [] then [scenario] else [])
        @ [''code'', ''example'', ''tutorial'', ''sample''])"

definition example_keywords :: "string list" where
  "example_keywords = [''example'', ''tutorial'', ''sample'', ''quickstart'', ''getting started'']"

definition keyword_hit :: "string \<Rightarrow> json \<Rightarrow> exn + bool" where
  \<comment> \<open>\<^verbatim>\<open>keyword in result.get("title", "").lower() or
      keyword in result.get("description", "").lower()\<close>; the right operand is
      evaluated only when the left one is false\<close>
  "keyword_hit keyword result =
     (case py_get result ''title'' (JStr []) of Inl e \<Rightarrow> Inl e | Inr t \<Rightarrow>
     (case py_lower t of Inl e \<Rightarrow> Inl e | Inr title \<Rightarrow>
        if contains keyword title then Inr True
        else
     (case py_get result ''description'' (JStr []) of Inl e \<Rightarrow> Inl e | Inr d \<Rightarrow>
     (case py_lower d of Inl e \<Rightarrow> Inl e | Inr description \<Rightarrow> Inr (contains keyword description)))))"

fun any_keyword :: "string list \<Rightarrow> json \<Rightarrow> exn + bool" where
  \<comment> \<open>\<^verbatim>\<open>any(... for keyword in keywords)\<close>: stops at the first hit\<close>
  "any_keyword [] result = Inr False"
| "any_keyword (keyword # keywords) result =
     (case keyword_hit keyword result of
        Inl e \<Rightarrow> Inl e
      | Inr hit \<Rightarrow> if hit then Inr True else any_keyword keywords result)"

definition code_example :: "json \<Rightarrow> exn + json" where
  "code_example result =
     (case py_get result ''title'' (JStr []) of Inl e \<Rightarrow> Inl e | Inr t \<Rightarrow>
     (case py_get result ''url'' (JStr []) of Inl e \<Rightarrow> Inl e | Inr u \<Rightarrow>
     (case py_get result ''description'' (JStr []) of Inl e \<Rightarrow> Inl e | Inr d \<Rightarrow>
        Inr (JObj [(''title'', t), (''url'', u), (''description'', d),
                   (''type'', JStr ''code_example'')]))))"

fun collect_examples :: "json list \<Rightarrow> exn + json list" where
  \<comment> \<open>the loop filling \<^verbatim>\<open>code_examples\<close>; an exception leaves it\<close>
  "collect_examples [] = Inr []"
| "collect_examples (r # rs) =
     (case any_keyword example_keywords r of
        Inl e \<Rightarrow> Inl e
      | Inr keep \<Rightarrow>
          if keep then
            (case code_example r of
               Inl e \<Rightarrow> Inl e
             | Inr ex \<Rightarrow>
                 (case collect_examples rs of Inl e \<Rightarrow> Inl e | Inr exs \<Rightarrow> Inr (ex # exs)))
          else collect_examples rs)"

definition examples_failed :: "exn \<Rightarrow> json list" where
  "examples_failed e = [JObj [(''error'', JStr (''Failed to find code examples: '' @ str_exn e))]]"

definition filter_code_examples :: "json \<Rightarrow> json list" where
  \<comment> \<open>the body of \<^verbatim>\<open>find_code_examples\<close> after the search, with its exception handler\<close>
  "filter_code_examples results =
     (case py_iter results of
        Inl e \<Rightarrow> examples_failed e
      | Inr rs \<Rightarrow>
          (case collect_examples rs of
             Inl e \<Rightarrow> examples_failed e
           | Inr code_examples \<Rightarrow> code_examples))"

definition find_code_examples ::
  "(request \<Rightarrow> json reply) \<Rightarrow> client \<Rightarrow> string \<Rightarrow> string \<Rightarrow> string \<Rightarrow> json list \<times> client" where
  "find_code_examples net c technology programming_language scenario =
     (let found = search_docs net c (build_query technology programming_language scenario)
                    [] ''en-us'' 5
      in (filter_code_examples (fst found), snd found))"

section \<open>Notions used to state the properties\<close>

definition search_fault :: "json reply \<Rightarrow> bool" where
  \<comment> \<open>the replies on which the search has no live results: the transport raised, the
      status is not 200, the body could not be read as JSON, or the JSON value is not a
      dict (its \<^verbatim>\<open>get\<close> raises inside the \<^verbatim>\<open>try\<close>)\<close>
  "search_fault r =
     (case r of
        Raised e \<Rightarrow> True
      | Reply status body \<Rightarrow>
          status \<noteq> 200
          \<or> (case body of
                Inl e \<Rightarrow> True
              | Inr data \<Rightarrow> (case data of JObj d \<Rightarrow> False | _ \<Rightarrow> True)))"

definition reply_bounded :: "node list reply \<Rightarrow> bool" where
  \<comment> \<open>the replies to a page request whose error text stays short: a status of at most
      three digits, as HTTP has them, and a fault described in at most 4976 characters
      (5000 less the 24 of \<^verbatim>\<open>Error fetching content: \<close>); no condition on a page\<close>
  "reply_bounded r =
     (case r of
        Raised e \<Rightarrow> length e \<le> 4976
      | Reply status body \<Rightarrow>
          if status = 200 then (case body of Inl e \<Rightarrow> length e \<le> 4976 | Inr soup \<Rightarrow> True)
          else status < 1000)"

definition url_host :: "string \<Rightarrow> string" where
  \<comment> \<open>the host of an \<^verbatim>\<open>https\<close> URL: the authority runs from the scheme to the first of
      \<^verbatim>\<open>/ ? #\<close>; the host is what follows its last \<^verbatim>\<open>@\<close>, up to the port's colon\<close>
  "url_host u =
     (let authority = takeWhile (\<lambda>ch. ch \<notin> set ''/?#'') (drop (length ''https://'') u);
          hostport = rev (takeWhile (\<lambda>ch. ch \<noteq> CHR ''@'') (rev authority))
      in takeWhile (\<lambda>ch. ch \<noteq> CHR '':'') hostport)"

fun prune :: "(node \<Rightarrow> bool) \<Rightarrow> node \<Rightarrow> node" where
  \<comment> \<open>the tree without the subtrees, strictly below its root, whose root satisfies \<open>P\<close>\<close>
  "prune P (Text i s) = Text i s"
| "prune P (Element i t a ks) = Element i t a (map (prune P) (filter (\<lambda>k. \<not> P k) ks))"

definition ids :: "node \<Rightarrow> nat list" where
  \<comment> \<open>the identities of a node and of the nodes below it; they are distinct in a tree
      of Python objects\<close>
  "ids n = map node_id (n # descendants n)"

text \<open>Two pages to run the program on.\<close>

definition example_region :: node where
  "example_region =
     Element 3 ''div'' [(''class'', ''page content'')]
       [Text 4 '' Hello '',
        Element 5 ''nav'' [] [Text 6 ''Menu'', Element 7 ''p'' [(''class'', ''alert'')] [Text 8 ''Beta'']],
        Element 9 ''ul'' [(''class'', ''breadcrumb'')] [Text 10 ''Docs''],
        Element 11 ''p'' [] [Text 12 ''World''],
        Element 13 ''div'' [(''class'', ''feedback-section'')] [Text 14 ''Rate'']]"

definition example_page :: "node list" where
  "example_page =
     [Element 1 ''html'' []
        [Element 2 ''body'' []
           [example_region, Element 15 ''article'' [] [Text 16 ''Other'']]]]"

definition plain_page :: "node list" where
  "plain_page = [Element 1 ''html'' [] [Element 2 ''body'' [] [Text 3 ''Hello'']]]"

fun is_str :: "json \<Rightarrow> bool" where
  "is_str (JStr s) = True"
| "is_str v = False"

definition well_shaped :: "json \<Rightarrow> bool" where
  \<comment> \<open>a search result as the data model has it: a dict whose title and description,
      where present, are strings\<close>
  "well_shaped r =
     (case r of
        JObj d \<Rightarrow> is_str (dict_get d ''title'' (JStr [])) \<and> is_str (dict_get d ''description'' (JStr []))
      | _ \<Rightarrow> False)"

definition field_text :: "string \<Rightarrow> json \<Rightarrow> string" where
  \<comment> \<open>the string a record has under a key, empty when the key is missing\<close>
  "field_text key r =
     (case r of
        JObj d \<Rightarrow> (case dict_get d key (JStr []) of JStr s \<Rightarrow> s | _ \<Rightarrow> [])
      | _ \<Rightarrow> [])"

definition ci_substring :: "string \<Rightarrow> string \<Rightarrow> bool" where
  \<comment> \<open>the keyword occurs in the string as a contiguous run, letter case ignored\<close>
  "ci_substring keyword s = sublist (map lower_char keyword) (map lower_char s)"

definition has_keyword :: "json \<Rightarrow> bool" where
  \<comment> \<open>the filter as the specification words it\<close>
  "has_keyword r =
     (\<exists>keyword \<in> {''example'', ''tutorial'', ''sample'', ''quickstart'', ''getting started''}.
        ci_substring keyword (field_text ''title'' r)
        \<or> ci_substring keyword (field_text ''description'' r))"

definition as_code_example :: "json \<Rightarrow> json" where
  \<comment> \<open>the entry \<^verbatim>\<open>find_code_examples\<close> returns for a record it keeps\<close>
  "as_code_example r =
     (case r of
        JObj d \<Rightarrow>
          JObj [(''title'', dict_get d ''title'' (JStr [])),
                (''url'', dict_get d ''url'' (JStr [])),
                (''description'', dict_get d ''description'' (JStr [])),
                (''type'', JStr ''code_example'')]
      | _ \<Rightarrow> r)"

text \<open>Three search results to run the filter on.\<close>

definition example_results :: "json list" where
  "example_results =
     [JObj [(''title'', JStr ''Azure Functions QUICKSTART''),
            (''url'', JStr ''https://learn.microsoft.com/a''),
            (''description'', JStr ''Create a function'')],
      JObj [(''title'', JStr ''Pricing''),
            (''url'', JStr ''https://learn.microsoft.com/b''),
            (''description'', JStr ''Costs and billing'')],
      JObj [(''url'', JStr ''https://learn.microsoft.com/c''),
            (''description'', JStr ''A Getting Started guide'')]]"

section \<open>Search: properties\<close>

lemma search_docs_client:
  "snd (search_docs net c query product language max_results) =
     issue (search_request query product language max_results) (get_session c)"
  by (simp add: search_docs_def Let_def split: reply.split sum.split)

lemma requested_issue: "requested (issue r (get_session c)) = requested c @ [r]"
  by (simp add: issue_def get_session_def)

lemma search_docs_live:
  "net (search_request query product language max_results) = Reply 200 (Inr (JObj d)) \<Longrightarrow>
   fst (search_docs net c query product language max_results) = dict_get d ''results'' (JArr [])"
  by (simp add: search_docs_def Let_def)

lemma search_docs_fault:
  "search_fault (net (search_request query product language max_results)) \<Longrightarrow>
   fst (search_docs net c query product language max_results) =
     fallback_search query product max_results"
  by (cases "net (search_request query product language max_results)")
     (auto simp: search_docs_def search_fault_def Let_def split: sum.splits json.splits)

lemma format_results_id:
  "(\<And>r. r \<in> set rs \<Longrightarrow> format_result r = Inr r) \<Longrightarrow> format_results rs = Inr rs"
  by (induction rs) auto

lemma set_slice_to: "set (slice_to n xs) \<subseteq> set xs"
  by (auto simp: slice_to_def dest: in_set_takeD)

lemma format_result_mock:
  "r \<in> set (mock_results query product) \<Longrightarrow> format_result r = Inr r"
  by (auto simp: mock_results_def format_result_def dict_get_def)

lemma format_results_fallback:
  "format_results (slice_to n (mock_results query product)) =
     Inr (slice_to n (mock_results query product))"
proof (rule format_results_id)
  fix r assume "r \<in> set (slice_to n (mock_results query product))"
  then have "r \<in> set (mock_results query product)" by (rule subsetD [OF set_slice_to])
  then show "format_result r = Inr r" by (rule format_result_mock)
qed

lemma search_microsoft_docs_fault:
  "search_fault (net (search_request query product language (clamp_max_results max_results))) \<Longrightarrow>
   fst (search_microsoft_docs net c query product language max_results) =
     slice_to (clamp_max_results max_results) (mock_results query product)"
  by (simp add: search_microsoft_docs_def Let_def search_docs_fault fallback_search_def
        format_search_results_def format_results_fallback)

lemma search_microsoft_docs_client:
  "snd (search_microsoft_docs net c query product language max_results) =
     snd (search_docs net c query product language (clamp_max_results max_results))"
  by (simp add: search_microsoft_docs_def Let_def)

text \<open>
  Claim C8. Whatever \<^verbatim>\<open>max_results\<close> the caller gives, \<^verbatim>\<open>search_microsoft_docs\<close>
  hands \<^verbatim>\<open>search_docs\<close> a value of at most 10: the clamped value is at most 10, it is
  10 for a caller's 1000, the client is left as \<^verbatim>\<open>search_docs\<close> leaves it when called
  with the clamped value, and the one request issued carries the clamped value as
  its \<^verbatim>\<open>$top\<close> parameter.
\<close>

theorem search_microsoft_docs_clamp:
  "clamp_max_results max_results \<le> 10
   \<and> clamp_max_results 1000 = 10
   \<and> snd (search_microsoft_docs net c query product language max_results) =
       snd (search_docs net c query product language (clamp_max_results max_results))
   \<and> requested (snd (search_microsoft_docs net c query product language max_results)) =
       requested c @ [search_request query product language (clamp_max_results max_results)]
   \<and> map_of (req_params (search_request query product language (clamp_max_results max_results)))
         ''$top'' = Some (PInt (clamp_max_results max_results))"
  by (simp add: search_microsoft_docs_client search_docs_client requested_issue
        clamp_max_results_def search_request_def)

text \<open>
  Claim C10. The clamp bounds \<^verbatim>\<open>max_results\<close> from above only: a negative value
  reaches \<^verbatim>\<open>search_docs\<close> and the request unchanged, and when the search falls back
  the slice \<^verbatim>\<open>mock_results[:max_results]\<close> drops records from the end of the three. For
  \<^verbatim>\<open>max_results = -1\<close> the failed search returns the first two synthesized records,
  not the empty list.
\<close>

theorem negative_max_results_pass_through:
  assumes "max_results < 0"
    and "search_fault (net (search_request query product language max_results))"
  shows "clamp_max_results max_results = max_results
   \<and> requested (snd (search_microsoft_docs net c query product language max_results)) =
       requested c @ [search_request query product language max_results]
   \<and> fst (search_microsoft_docs net c query product language max_results) =
       take (nat (3 + max_results)) (mock_results query product)
   \<and> (max_results = - 1 \<longrightarrow>
        fst (search_microsoft_docs net c query product language max_results) =
          take 2 (mock_results query product)
        \<and> length (fst (search_microsoft_docs net c query product language max_results)) = 2)"
proof -
  have cl: "clamp_max_results max_results = max_results"
    using assms(1) by (simp add: clamp_max_results_def)
  have len: "length (mock_results query product) = 3"
    by (simp add: mock_results_def)
  have res: "fst (search_microsoft_docs net c query product language max_results) =
      take (nat (3 + max_results)) (mock_results query product)"
    using search_microsoft_docs_fault [of net query product language max_results c] assms
    by (simp add: cl slice_to_def len)
  show ?thesis
    using res
    by (auto simp add: cl search_microsoft_docs_client search_docs_client requested_issue len)
qed

theorem negative_max_results_pass_through_witness:
  "(- 1 :: int) < 0
   \<and> search_fault (Raised ''timeout'' :: json reply)
   \<and> fst (search_microsoft_docs (\<lambda>r. Raised ''timeout'') new_client
             ''Azure Functions'' [] ''en-us'' (- 1)) =
      [JObj [(''title'', JStr ''Microsoft Documentation: Azure Functions''),
             (''url'', JStr ''https://learn.microsoft.com/en-us/docs/azure-functions''),
             (''description'', JStr ''Documentation about Azure Functions in Microsoft products''),
             (''lastUpdated'', JStr ''2024-01-01T00:00:00Z''),
             (''product'', JStr ''General'')],
       JObj [(''title'', JStr ''Azure Functions - Getting Started Guide''),
             (''url'', JStr ''https://learn.microsoft.com/en-us/docs/azure-functions/getting-started''),
             (''description'', JStr ''Getting started guide for Azure Functions''),
             (''lastUpdated'', JStr ''2024-01-01T00:00:00Z''),
             (''product'', JStr ''General'')]]"
proof -
  have f: "search_fault (Raised ''timeout'' :: json reply)"
    by (simp add: search_fault_def)
  have s: "slug ''Azure Functions'' = ''azure-functions''"
    by code_simp
  show ?thesis
    using negative_max_results_pass_through
      [of "- 1" "\<lambda>r. Raised ''timeout''" "''Azure Functions''" "[]" "''en-us''" new_client] f
    by (simp add: mock_results_def s LEARN_BASE_URL_def product_or_general_def)
qed

text \<open>
  Claim C1, as amended. \<^verbatim>\<open>search_docs\<close> has no error result: every exception raised
  inside its \<^verbatim>\<open>try\<close> ends in the fallback. For \<^verbatim>\<open>max_results\<close> at least 0, on a status
  other than 200 and on any fault, it returns the first \<^verbatim>\<open>min(3, max_results)\<close> of the
  three synthesized records: a documentation page, a getting-started page and a
  code-examples page, whose urls are built from the query in lower case with each
  space replaced by a hyphen, and whose \<^verbatim>\<open>lastUpdated\<close> is \<^verbatim>\<open>2024-01-01T00:00:00Z\<close>.
\<close>

theorem search_fallback_nonneg:
  assumes "0 \<le> max_results"
    and "search_fault (net (search_request query product language max_results))"
  shows "fst (search_docs net c query product language max_results) =
           JArr (take (nat (min 3 max_results)) (mock_results query product))
   \<and> length (mock_results query product) = 3
   \<and> map (\<lambda>r. py_get r ''url'' JNull) (mock_results query product) =
        [Inr (JStr (''https://learn.microsoft.com/en-us/docs/'' @ slug query)),
         Inr (JStr (''https://learn.microsoft.com/en-us/docs/'' @ slug query @ ''/getting-started'')),
         Inr (JStr (''https://learn.microsoft.com/en-us/samples/'' @ slug query))]
   \<and> slug query = map (\<lambda>ch. if ch = CHR '' '' then CHR ''-'' else ch) (map lower_char query)
   \<and> map (\<lambda>r. py_get r ''lastUpdated'' JNull) (mock_results query product) =
        replicate 3 (Inr (JStr ''2024-01-01T00:00:00Z''))"
proof -
  have len: "length (mock_results query product) = 3"
    by (simp add: mock_results_def)
  have "slice_to max_results (mock_results query product) =
      take (nat (min 3 max_results)) (mock_results query product)"
    using assms(1) len by (simp add: slice_to_def min_def)
  then have res: "fst (search_docs net c query product language max_results) =
      JArr (take (nat (min 3 max_results)) (mock_results query product))"
    using search_docs_fault [of net query product language max_results c] assms(2)
    by (simp add: fallback_search_def)
  have urls: "map (\<lambda>r. py_get r ''url'' JNull) (mock_results query product) =
        [Inr (JStr (''https://learn.microsoft.com/en-us/docs/'' @ slug query)),
         Inr (JStr (''https://learn.microsoft.com/en-us/docs/'' @ slug query @ ''/getting-started'')),
         Inr (JStr (''https://learn.microsoft.com/en-us/samples/'' @ slug query))]"
    by (simp add: mock_results_def dict_get_def LEARN_BASE_URL_def)
  have dates: "map (\<lambda>r. py_get r ''lastUpdated'' JNull) (mock_results query product) =
        replicate 3 (Inr (JStr ''2024-01-01T00:00:00Z''))"
    by (simp add: mock_results_def dict_get_def numeral_3_eq_3)
  have sl: "slug query = map (\<lambda>ch. if ch = CHR '' '' then CHR ''-'' else ch) (map lower_char query)"
    by (simp add: slug_def replace_char_def lower_def)
  show ?thesis using res len urls dates sl by blast
qed

theorem search_fallback_nonneg_witness:
  "(0 :: int) \<le> 2
   \<and> search_fault (Reply 500 (Inl ''Internal Server Error'') :: json reply)
   \<and> fst (search_docs (\<lambda>r. Reply 500 (Inl ''Internal Server Error'')) new_client
             ''Azure Functions'' ''azure'' ''en-us'' 2) =
      JArr
       [JObj [(''title'', JStr ''Microsoft Documentation: Azure Functions''),
              (''url'', JStr ''https://learn.microsoft.com/en-us/docs/azure-functions''),
              (''description'', JStr ''Documentation about Azure Functions in Microsoft products''),
              (''lastUpdated'', JStr ''2024-01-01T00:00:00Z''),
              (''product'', JStr ''azure'')],
        JObj [(''title'', JStr ''Azure Functions - Getting Started Guide''),
              (''url'', JStr ''https://learn.microsoft.com/en-us/docs/azure-functions/getting-started''),
              (''description'', JStr ''Getting started guide for Azure Functions''),
              (''lastUpdated'', JStr ''2024-01-01T00:00:00Z''),
              (''product'', JStr ''azure'')]]"
proof -
  have f: "search_fault (Reply 500 (Inl ''Internal Server Error'') :: json reply)"
    by (simp add: search_fault_def)
  have h0: "(0 :: int) \<le> 2"
    by simp
  have s: "slug ''Azure Functions'' = ''azure-functions''"
    by code_simp
  have "fst (search_docs (\<lambda>r. Reply 500 (Inl ''Internal Server Error'')) new_client
             ''Azure Functions'' ''azure'' ''en-us'' 2) =
        JArr (take (nat (min 3 2)) (mock_results ''Azure Functions'' ''azure''))"
    using search_fallback_nonneg
      [of 2 "\<lambda>r. Reply 500 (Inl ''Internal Server Error'')" "''Azure Functions''" "''azure''"
          "''en-us''" new_client] f h0
    by blast
  then show ?thesis
    using f by (simp add: mock_results_def s LEARN_BASE_URL_def product_or_general_def)
qed

text \<open>
  The claim as stated, for every \<^verbatim>\<open>max_results\<close>, fails at \<^verbatim>\<open>max_results = -1\<close>: the
  first \<^verbatim>\<open>min(3, -1)\<close> records are no records, and the slice returns two.
\<close>

theorem search_fallback_negative_counterexample:
  "search_fault (Raised ''timeout'' :: json reply)
   \<and> fst (search_docs (\<lambda>r. Raised ''timeout'') new_client ''Azure Functions'' [] ''en-us'' (- 1)) \<noteq>
       JArr (take (nat (min 3 (- 1))) (mock_results ''Azure Functions'' []))
   \<and> fst (search_docs (\<lambda>r. Raised ''timeout'') new_client ''Azure Functions'' [] ''en-us'' (- 1)) =
       JArr (take 2 (mock_results ''Azure Functions'' []))"
  by (simp add: search_fault_def search_docs_def Let_def fallback_search_def slice_to_def
        mock_results_def)

text \<open>
  Claim C2. On a 200 response the value under \<^verbatim>\<open>results\<close> is returned as it is
  (\<open>search_docs_live\<close>); nothing on this path looks at \<^verbatim>\<open>max_results\<close>, which only
  travels to the server as \<^verbatim>\<open>$top\<close>. With \<^verbatim>\<open>max_results = 1\<close> and a payload of two
  results, \<^verbatim>\<open>search_docs\<close> returns both, and so does \<^verbatim>\<open>search_microsoft_docs\<close>.
\<close>

theorem search_docs_live_not_capped:
  "fst (search_docs
         (\<lambda>r. Reply 200 (Inr (JObj [(''results'',
                  JArr [JObj [(''title'', JStr ''a'')], JObj [(''title'', JStr ''b'')]])])))
         new_client ''q'' [] ''en-us'' 1) =
     JArr [JObj [(''title'', JStr ''a'')], JObj [(''title'', JStr ''b'')]]
   \<and> length (fst (search_microsoft_docs
         (\<lambda>r. Reply 200 (Inr (JObj [(''results'',
                  JArr [JObj [(''title'', JStr ''a'')], JObj [(''title'', JStr ''b'')]])])))
         new_client ''q'' [] ''en-us'' 1)) = 2"
  by (simp add: search_docs_def search_microsoft_docs_def Let_def dict_get_def
        format_search_results_def format_result_def)

section \<open>Page content: properties\<close>

lemma startswith_prefix: "startswith s p = prefix p s"
  by (induction s p rule: startswith.induct) auto

lemma get_page_content_client:
  "snd (get_page_content net c url) = issue (Get url []) (get_session c)"
  by (simp add: get_page_content_def Let_def split: reply.split sum.split)

lemma length_str_nat: "0 < k \<Longrightarrow> n < 10 ^ k \<Longrightarrow> length (str_nat n) \<le> k"
proof (induction n arbitrary: k rule: str_nat.induct)
  case (1 n)
  show ?case
  proof (cases "n < 10")
    case True
    then show ?thesis using "1.prems" by (simp add: str_nat.simps [of n])
  next
    case False
    obtain j where k: "k = Suc j" using "1.prems"(1) by (cases k) auto
    have "0 < j"
    proof (rule ccontr)
      assume "\<not> 0 < j"
      then have "k = 1" using k by simp
      then show False using "1.prems"(2) False by simp
    qed
    moreover have "n div 10 < 10 ^ j"
      using "1.prems"(2) k by (simp add: less_mult_imp_div_less mult.commute)
    ultimately have "length (str_nat (n div 10)) \<le> j"
      using "1.IH" False by simp
    then show ?thesis using False k by (simp add: str_nat.simps [of n])
  qed
qed

lemma get_page_content_fault_length:
  "net (Get url []) = Raised e \<Longrightarrow>
   length (fst (get_page_content net c url)) = 24 + length e"
  by (simp add: get_page_content_def Let_def)

text \<open>
  Claim C3, as amended. The string \<^verbatim>\<open>get_page_content\<close> returns has at most 5000
  characters for a page of any size, for every status other than 200 (a status has
  three digits), and for a fault whose description has at most 4976 characters. Only
  the page text is cut at 5000; an error string is its fixed prefix followed by the
  whole status or description (\<open>get_page_content_fault_length\<close>).
\<close>

theorem get_page_content_length:
  assumes "reply_bounded (net (Get url []))"
  shows "length (fst (get_page_content net c url)) \<le> 5000"
proof (cases "net (Get url [])")
  case (Raised e)
  then show ?thesis
    using assms by (simp add: get_page_content_def Let_def reply_bounded_def)
next
  case (Reply status body)
  show ?thesis
  proof (cases "status = 200")
    case True
    then show ?thesis using Reply assms
      by (cases body) (simp_all add: get_page_content_def Let_def reply_bounded_def)
  next
    case False
    then have "status < 10 ^ 3"
      using Reply assms by (simp add: reply_bounded_def)
    then have "length (str_nat status) \<le> 3"
      by (intro length_str_nat) simp_all
    then show ?thesis using Reply False
      by (simp add: get_page_content_def Let_def)
  qed
qed

theorem get_page_content_length_witness:
  "reply_bounded (Reply 404 (Inl []))
   \<and> fst (get_page_content (\<lambda>r. Reply 404 (Inl [])) new_client ''https://learn.microsoft.com/x'') =
       ''Error fetching content: HTTP 404''
   \<and> length (fst (get_page_content (\<lambda>r. Reply 404 (Inl [])) new_client
                ''https://learn.microsoft.com/x'')) \<le> 5000"
proof -
  have b: "reply_bounded (Reply 404 (Inl []))"
    by (simp add: reply_bounded_def)
  have s: "str_nat 404 = ''404''"
    by code_simp
  have "length (fst (get_page_content (\<lambda>r. Reply 404 (Inl [])) new_client
                ''https://learn.microsoft.com/x'')) \<le> 5000"
    using get_page_content_length
      [of "\<lambda>r. Reply 404 (Inl [])" "''https://learn.microsoft.com/x''" new_client] b
    by blast
  then show ?thesis
    using b by (simp add: get_page_content_def Let_def s)
qed

text \<open>
  The claim as stated, for a fault with an arbitrary description, fails for a
  description of 5000 characters: the string returned has 5024.
\<close>

theorem get_page_content_length_counterexample:
  "length (fst (get_page_content (\<lambda>r. Raised (replicate 5000 CHR ''x'')) new_client
                 ''https://learn.microsoft.com/x'')) = 5024
   \<and> \<not> length (fst (get_page_content (\<lambda>r. Raised (replicate 5000 CHR ''x'')) new_client
                   ''https://learn.microsoft.com/x'')) \<le> 5000"
  by (simp add: get_page_content_def Let_def)

lemma get_documentation_content_accept:
  "prefix ''https://docs.microsoft.com'' url \<or> prefix ''https://learn.microsoft.com'' url \<Longrightarrow>
   get_documentation_content net c url = get_page_content net c url"
  by (simp add: get_documentation_content_def startswith_prefix)

lemma get_documentation_content_reject:
  "\<not> prefix ''https://docs.microsoft.com'' url \<Longrightarrow> \<not> prefix ''https://learn.microsoft.com'' url \<Longrightarrow>
   get_documentation_content net c url =
     (''Error: URL must be from docs.microsoft.com or learn.microsoft.com'', c)"
  by (simp add: get_documentation_content_def startswith_prefix)

text \<open>
  Claim C6. A url that starts with neither \<^verbatim>\<open>https://docs.microsoft.com\<close> nor
  \<^verbatim>\<open>https://learn.microsoft.com\<close> gets the error string, and the client is unchanged:
  no request is issued, \<^verbatim>\<open>get_page_content\<close> is not called. A url that starts with
  one of them gets what \<^verbatim>\<open>get_page_content\<close> returns, with the one request for that
  url issued.
\<close>

theorem get_documentation_content_prefix_check:
  "(\<not> prefix ''https://docs.microsoft.com'' url \<and> \<not> prefix ''https://learn.microsoft.com'' url \<longrightarrow>
      get_documentation_content net c url =
        (''Error: URL must be from docs.microsoft.com or learn.microsoft.com'', c)
      \<and> requested (snd (get_documentation_content net c url)) = requested c)
   \<and> (prefix ''https://docs.microsoft.com'' url \<or> prefix ''https://learn.microsoft.com'' url \<longrightarrow>
      get_documentation_content net c url = get_page_content net c url
      \<and> requested (snd (get_documentation_content net c url)) = requested c @ [Get url []])"
  by (auto simp: get_documentation_content_accept get_documentation_content_reject
        get_page_content_client requested_issue)

theorem get_documentation_content_prefix_check_witness:
  "\<not> prefix ''https://docs.microsoft.com'' ''https://example.com/page''
   \<and> \<not> prefix ''https://learn.microsoft.com'' ''https://example.com/page''
   \<and> get_documentation_content (\<lambda>r. Reply 200 (Inr [])) new_client ''https://example.com/page'' =
        (''Error: URL must be from docs.microsoft.com or learn.microsoft.com'', new_client)
   \<and> requested (snd (get_documentation_content (\<lambda>r. Reply 200 (Inr [])) new_client
                        ''https://example.com/page'')) = []
   \<and> prefix ''https://learn.microsoft.com'' ''https://learn.microsoft.com/en-us/azure''
   \<and> get_documentation_content (\<lambda>r. Reply 404 (Inl [])) new_client
        ''https://learn.microsoft.com/en-us/azure'' =
        get_page_content (\<lambda>r. Reply 404 (Inl [])) new_client ''https://learn.microsoft.com/en-us/azure''
   \<and> requested (snd (get_documentation_content (\<lambda>r. Reply 404 (Inl [])) new_client
                        ''https://learn.microsoft.com/en-us/azure'')) =
        [Get ''https://learn.microsoft.com/en-us/azure'' []]"
proof -
  have n1: "\<not> prefix ''https://docs.microsoft.com'' ''https://example.com/page''"
    by simp
  have n2: "\<not> prefix ''https://learn.microsoft.com'' ''https://example.com/page''"
    by simp
  have p: "prefix ''https://learn.microsoft.com'' ''https://learn.microsoft.com/en-us/azure''"
    by simp
  have e: "requested new_client = []"
    by (simp add: new_client_def)
  show ?thesis
    using get_documentation_content_prefix_check
            [of "''https://example.com/page''" "\<lambda>r. Reply 200 (Inr [])" new_client]
          get_documentation_content_prefix_check
            [of "''https://learn.microsoft.com/en-us/azure''" "\<lambda>r. Reply 404 (Inl [])" new_client]
          n1 n2 p e
    by (metis append_Nil)
qed

text \<open>
  Claim C9. The validation compares the beginning of the string, not the host: the
  url \<^verbatim>\<open>https://docs.microsoft.com.attacker.example/page\<close> has the host
  \<^verbatim>\<open>docs.microsoft.com.attacker.example\<close>, neither of the two documentation hosts, yet
  it starts with an accepted prefix, so \<^verbatim>\<open>get_documentation_content\<close> goes on to
  \<^verbatim>\<open>get_page_content\<close> and the url is requested.
\<close>

theorem prefix_check_is_not_host_check:
  "url_host ''https://docs.microsoft.com.attacker.example/page'' = ''docs.microsoft.com.attacker.example''
   \<and> url_host ''https://docs.microsoft.com.attacker.example/page'' \<noteq> ''docs.microsoft.com''
   \<and> url_host ''https://docs.microsoft.com.attacker.example/page'' \<noteq> ''learn.microsoft.com''
   \<and> startswith ''https://docs.microsoft.com.attacker.example/page'' ''https://docs.microsoft.com''
   \<and> get_documentation_content net c ''https://docs.microsoft.com.attacker.example/page'' =
       get_page_content net c ''https://docs.microsoft.com.attacker.example/page''
   \<and> requested (snd (get_documentation_content net c
                        ''https://docs.microsoft.com.attacker.example/page'')) =
       requested c @ [Get ''https://docs.microsoft.com.attacker.example/page'' []]"
proof -
  have h: "url_host ''https://docs.microsoft.com.attacker.example/page'' =
      ''docs.microsoft.com.attacker.example''"
    by code_simp
  have p: "startswith ''https://docs.microsoft.com.attacker.example/page''
      ''https://docs.microsoft.com''"
    by simp
  have g: "get_documentation_content net c ''https://docs.microsoft.com.attacker.example/page'' =
       get_page_content net c ''https://docs.microsoft.com.attacker.example/page''"
    using p by (simp only: get_documentation_content_def simp_thms if_False)
  show ?thesis
    using p g by (simp add: h get_page_content_client requested_issue)
qed

section \<open>Content extraction: properties\<close>

lemma extract_content_none:
  "(\<And>sel. sel \<in> set sels \<Longrightarrow> select_one sel soup = None) \<Longrightarrow>
   extract_content sels soup = ([], sels)"
  by (induction sels) auto

lemma extract_content_first:
  "(\<And>s. s \<in> set pre \<Longrightarrow> select_one s soup = None) \<Longrightarrow>
   select_one sel soup = Some element \<Longrightarrow>
   extract_content (pre @ sel # post) soup = (get_text (remove_unwanted element), pre @ [sel])"
  by (induction pre) auto

lemma get_page_content_page:
  "net (Get url []) = Reply 200 (Inr soup) \<Longrightarrow>
   fst (get_page_content net c url) = take 5000 (fst (extract_content content_selectors soup))"
  by (simp add: get_page_content_def Let_def)

text \<open>
  Claim C5. On a 200 response \<^verbatim>\<open>get_page_content\<close> takes the selectors in the order
  \<^verbatim>\<open>main[role="main"]\<close>, \<^verbatim>\<open>.content\<close>, \<^verbatim>\<open>article\<close>, \<^verbatim>\<open>#main-content\<close>. Where the selectors
  before one match nothing and that one matches, the content is the text of its
  first match and the selectors handed to \<^verbatim>\<open>select_one\<close> are those up to it and no
  further. Where none of the four matches, all four were tried and the string
  returned is empty.
\<close>

theorem content_region_first_match:
  assumes "net (Get url []) = Reply 200 (Inr soup)"
  shows "content_selectors =
           [TagAttr ''main'' ''role'' ''main'', ClassSel ''content'', TagSel ''article'',
            IdSel ''main-content'']
   \<and> (\<forall>pre sel post element.
          content_selectors = pre @ sel # post
          \<and> (\<forall>s \<in> set pre. select_one s soup = None)
          \<and> select_one sel soup = Some element
          \<longrightarrow> fst (get_page_content net c url) = take 5000 (get_text (remove_unwanted element))
              \<and> snd (extract_content content_selectors soup) = pre @ [sel])
   \<and> ((\<forall>s \<in> set content_selectors. select_one s soup = None)
        \<longrightarrow> fst (get_page_content net c url) = []
            \<and> snd (extract_content content_selectors soup) = content_selectors)"
proof (intro conjI allI impI)
  show "content_selectors =
           [TagAttr ''main'' ''role'' ''main'', ClassSel ''content'', TagSel ''article'',
            IdSel ''main-content'']"
    by (simp add: content_selectors_def)
next
  fix pre sel post element
  assume a: "content_selectors = pre @ sel # post
          \<and> (\<forall>s \<in> set pre. select_one s soup = None)
          \<and> select_one sel soup = Some element"
  then have e: "extract_content content_selectors soup =
      (get_text (remove_unwanted element), pre @ [sel])"
    using extract_content_first [of pre soup sel element post] by simp
  show "fst (get_page_content net c url) = take 5000 (get_text (remove_unwanted element))"
    using get_page_content_page [of net url soup c] assms e by simp
  show "snd (extract_content content_selectors soup) = pre @ [sel]"
    using e by simp
next
  assume a: "\<forall>s \<in> set content_selectors. select_one s soup = None"
  then have e: "extract_content content_selectors soup = ([], content_selectors)"
    by (intro extract_content_none) simp
  show "fst (get_page_content net c url) = []"
    using get_page_content_page [of net url soup c] assms e by simp
  show "snd (extract_content content_selectors soup) = content_selectors"
    using e by simp
qed


theorem content_region_first_match_witness:
  "select_one (TagAttr ''main'' ''role'' ''main'') example_page = None
   \<and> select_one (ClassSel ''content'') example_page = Some example_region
   \<and> select_one (TagSel ''article'') example_page \<noteq> None
   \<and> fst (get_page_content (\<lambda>r. Reply 200 (Inr example_page)) new_client
             ''https://learn.microsoft.com/en-us/azure'') = ''Hello'' @ [CHR 0x0A] @ ''World''
   \<and> snd (extract_content content_selectors example_page) =
        [TagAttr ''main'' ''role'' ''main'', ClassSel ''content'']
   \<and> fst (get_page_content (\<lambda>r. Reply 200 (Inr plain_page)) new_client
             ''https://learn.microsoft.com/en-us/azure'') = []
   \<and> snd (extract_content content_selectors plain_page) = content_selectors"
proof -
  let ?url = "''https://learn.microsoft.com/en-us/azure''"
  note page = content_region_first_match
    [of "\<lambda>r. Reply 200 (Inr example_page)" ?url example_page new_client, OF refl]
  note plain = content_region_first_match
    [of "\<lambda>r. Reply 200 (Inr plain_page)" ?url plain_page new_client, OF refl]
  have m1: "select_one (TagAttr ''main'' ''role'' ''main'') example_page = None"
    by code_simp
  have m2: "select_one (ClassSel ''content'') example_page = Some example_region"
    by code_simp
  have m3: "select_one (TagSel ''article'') example_page \<noteq> None"
    by code_simp
  have parts: "content_selectors =
      [TagAttr ''main'' ''role'' ''main''] @ ClassSel ''content'' # [TagSel ''article'', IdSel ''main-content'']"
    by (simp add: content_selectors_def)
  have pre: "\<forall>s \<in> set [TagAttr ''main'' ''role'' ''main'']. select_one s example_page = None"
    using m1 by simp
  have shown: "take 5000 (get_text (remove_unwanted example_region)) = ''Hello'' @ [CHR 0x0A] @ ''World''"
    by code_simp
  have r1: "fst (get_page_content (\<lambda>r. Reply 200 (Inr example_page)) new_client ?url) =
              take 5000 (get_text (remove_unwanted example_region))
            \<and> snd (extract_content content_selectors example_page) =
              [TagAttr ''main'' ''role'' ''main''] @ [ClassSel ''content'']"
    using page parts pre m2 by blast
  have none: "\<forall>s \<in> set content_selectors. select_one s plain_page = None"
    by code_simp
  have r2: "fst (get_page_content (\<lambda>r. Reply 200 (Inr plain_page)) new_client ?url) = []
            \<and> snd (extract_content content_selectors plain_page) = content_selectors"
    using plain none by blast
  show ?thesis using m1 m2 m3 r1 r2 shown by simp
qed

subsection \<open>What the loop over the unwanted nodes leaves\<close>

lemma node_id_prune [simp]: "node_id (prune P n) = node_id n"
  by (cases n) simp_all

lemma prune_nothing: "prune (\<lambda>k. False) n = n"
  by (induction n) (simp_all add: map_idI)

lemma decompose_prune:
  "decompose u (prune P n) = prune (\<lambda>k. P k \<or> node_id k = u) n"
proof (induction n)
  case (Text i s)
  show ?case by simp
next
  case (Element i t a ks)
  have "map (decompose u) (filter (\<lambda>k. node_id k \<noteq> u) (map (prune P) (filter (\<lambda>k. \<not> P k) ks))) =
        map (\<lambda>k. decompose u (prune P k)) (filter (\<lambda>k. \<not> (P k \<or> node_id k = u)) ks)"
    by (simp add: filter_map o_def conj_commute)
  also have "\<dots> = map (prune (\<lambda>k. P k \<or> node_id k = u)) (filter (\<lambda>k. \<not> (P k \<or> node_id k = u)) ks)"
    using Element.IH by (intro map_cong refl) simp
  finally show ?case by simp
qed

lemma fold_decompose_prune:
  "fold (\<lambda>unwanted e. decompose (node_id unwanted) e) us (prune P n) =
     prune (\<lambda>k. P k \<or> node_id k \<in> node_id ` set us) n"
proof (induction us arbitrary: P)
  case Nil
  show ?case by simp
next
  case (Cons u us)
  have "(\<lambda>k. (P k \<or> node_id k = node_id u) \<or> node_id k \<in> node_id ` set us) =
        (\<lambda>k. P k \<or> node_id k \<in> node_id ` set (u # us))"
    by auto
  then show ?case
    using Cons.IH [of "\<lambda>k. P k \<or> node_id k = node_id u"] by (simp add: decompose_prune)
qed

lemma remove_unwanted_prune_ids:
  "remove_unwanted n =
     prune (\<lambda>k. node_id k \<in> node_id ` set (select unwanted_selectors n)) n"
  using fold_decompose_prune [of "select unwanted_selectors n" "\<lambda>k. False" n]
  by (simp add: remove_unwanted_def prune_nothing)

lemma descendants_child:
  "k \<in> set ks \<Longrightarrow> d \<in> set (descendants k) \<Longrightarrow> d \<in> set (descendants (Element i t a ks))"
  by auto

lemma prune_cong:
  "(\<And>d. d \<in> set (descendants n) \<Longrightarrow> P d = Q d) \<Longrightarrow> prune P n = prune Q n"
proof (induction n)
  case (Text i s)
  show ?case by simp
next
  case (Element i t a ks)
  have kids: "\<And>k. k \<in> set ks \<Longrightarrow> P k = Q k"
    using Element.prems by auto
  have sub: "\<And>k. k \<in> set ks \<Longrightarrow> prune P k = prune Q k"
  proof -
    fix k assume k: "k \<in> set ks"
    show "prune P k = prune Q k"
    proof (rule Element.IH [OF k])
      fix d assume "d \<in> set (descendants k)"
      then show "P d = Q d" using Element.prems k by auto
    qed
  qed
  have "filter (\<lambda>k. \<not> P k) ks = filter (\<lambda>k. \<not> Q k) ks"
    using kids by (intro filter_cong refl) simp
  moreover have "map (prune P) (filter (\<lambda>k. \<not> Q k) ks) = map (prune Q) (filter (\<lambda>k. \<not> Q k) ks)"
    using sub by (intro map_cong refl) simp
  ultimately show ?case by simp
qed

lemma remove_unwanted_prune:
  assumes "distinct (ids n)"
  shows "remove_unwanted n = prune (matches_any unwanted_selectors) n"
proof -
  have inj: "inj_on node_id (set (descendants n))"
    using assms by (simp add: ids_def distinct_map)
  have "prune (\<lambda>k. node_id k \<in> node_id ` set (select unwanted_selectors n)) n =
        prune (matches_any unwanted_selectors) n"
  proof (rule prune_cong)
    fix d assume d: "d \<in> set (descendants n)"
    show "(node_id d \<in> node_id ` set (select unwanted_selectors n)) =
          matches_any unwanted_selectors d"
    proof
      assume "node_id d \<in> node_id ` set (select unwanted_selectors n)"
      then obtain d' where d': "d' \<in> set (descendants n)" "matches_any unwanted_selectors d'"
          "node_id d = node_id d'"
        by (auto simp: select_def)
      then have "d = d'" using inj d by (auto dest: inj_onD)
      then show "matches_any unwanted_selectors d" using d' by simp
    next
      assume "matches_any unwanted_selectors d"
      then show "node_id d \<in> node_id ` set (select unwanted_selectors n)"
        using d by (auto simp: select_def)
    qed
  qed
  then show ?thesis by (simp add: remove_unwanted_prune_ids)
qed


lemma ids_Element: "ids (Element i t a ks) = i # concat (map ids ks)"
  by (simp add: ids_def [abs_def] map_concat o_def)

lemma all_strings_descendant:
  "d \<in> set (descendants n) \<Longrightarrow> set (all_strings d) \<subseteq> set (all_strings n)"
proof (induction n)
  case (Text i s)
  then show ?case by simp
next
  case (Element i t a ks)
  then obtain k where k: "k \<in> set ks" "d = k \<or> d \<in> set (descendants k)"
    by auto
  then have "set (all_strings d) \<subseteq> set (all_strings k)"
    using Element.IH by auto
  then show ?case using k(1) by auto
qed

lemma all_strings_ids: "p \<in> set (all_strings n) \<Longrightarrow> fst p \<in> set (ids n)"
proof (induction n)
  case (Text i s)
  then show ?case by (simp add: ids_def)
next
  case (Element i t a ks)
  then show ?case by (auto simp: ids_Element)
qed

lemma distinct_ids_child:
  "distinct (ids (Element i t a ks)) \<Longrightarrow> k \<in> set ks \<Longrightarrow> distinct (ids k)"
  by (auto simp: ids_Element distinct_concat_iff)

lemma ids_children_disjoint:
  "distinct (concat (map ids ks)) \<Longrightarrow> k \<in> set ks \<Longrightarrow> k' \<in> set ks \<Longrightarrow>
   x \<in> set (ids k) \<Longrightarrow> x \<in> set (ids k') \<Longrightarrow> k = k'"
  by (induction ks) auto

lemma concat_map_filter:
  "concat (map f (filter R xs)) = concat (map (\<lambda>x. if R x then f x else []) xs)"
  by (induction xs) simp_all

lemma all_strings_prune:
  assumes "distinct (ids n)"
  shows "all_strings (prune P n) =
         filter (\<lambda>p. \<not> (\<exists>u \<in> set (descendants n). P u \<and> p \<in> set (all_strings u)))
           (all_strings n)"
  using assms
proof (induction n)
  case (Text i s)
  show ?case by simp
next
  case (Element i t a ks)
  let ?n = "Element i t a ks"
  let ?Q = "\<lambda>n p. \<not> (\<exists>u \<in> set (descendants n). P u \<and> p \<in> set (all_strings u))"
  have dis: "distinct (concat (map ids ks))"
    using Element.prems by (simp add: ids_Element)
  have child: "(if \<not> P k then all_strings (prune P k) else []) = filter (?Q ?n) (all_strings k)"
    if k: "k \<in> set ks" for k
  proof (cases "P k")
    case True
    have "\<And>p. p \<in> set (all_strings k) \<Longrightarrow> \<not> ?Q ?n p"
      using True k by auto
    then have "filter (?Q ?n) (all_strings k) = []"
      by (simp add: filter_empty_conv)
    then show ?thesis using True by simp
  next
    case False
    have ih: "all_strings (prune P k) = filter (?Q k) (all_strings k)"
      using Element.IH [OF k] distinct_ids_child [OF Element.prems k] by simp
    have "filter (?Q k) (all_strings k) = filter (?Q ?n) (all_strings k)"
    proof (rule filter_cong [OF refl])
      fix p assume p: "p \<in> set (all_strings k)"
      show "?Q k p = ?Q ?n p"
      proof
        assume q: "?Q k p"
        show "?Q ?n p"
        proof
          assume "\<exists>u \<in> set (descendants ?n). P u \<and> p \<in> set (all_strings u)"
          then obtain u k' where u: "P u" "p \<in> set (all_strings u)"
              and k': "k' \<in> set ks" "u = k' \<or> u \<in> set (descendants k')"
            by auto
          have "p \<in> set (all_strings k')"
            using u(2) k'(2) all_strings_descendant [of u k'] by auto
          then have "fst p \<in> set (ids k')" by (rule all_strings_ids)
          moreover have "fst p \<in> set (ids k)" using p by (rule all_strings_ids)
          ultimately have "k = k'"
            using ids_children_disjoint [OF dis k k'(1)] by blast
          then have "u \<in> set (descendants k)"
            using k'(2) u(1) False by auto
          then show False using q u by blast
        qed
      next
        assume q: "?Q ?n p"
        show "?Q k p"
        proof
          assume "\<exists>u \<in> set (descendants k). P u \<and> p \<in> set (all_strings u)"
          then obtain u where "u \<in> set (descendants k)" "P u" "p \<in> set (all_strings u)"
            by blast
          moreover from this have "u \<in> set (descendants ?n)"
            using k by auto
          ultimately show False using q by blast
        qed
      qed
    qed
    then show ?thesis using False ih by simp
  qed
  have "all_strings (prune P ?n) =
        concat (map (\<lambda>k. if \<not> P k then all_strings (prune P k) else []) ks)"
    by (simp add: concat_map_filter o_def)
  also have "\<dots> = concat (map (\<lambda>k. filter (?Q ?n) (all_strings k)) ks)"
    using child by (intro arg_cong [where f = concat] map_cong refl)
  also have "\<dots> = filter (?Q ?n) (all_strings ?n)"
    by (simp add: filter_concat o_def)
  finally show ?case .
qed

lemma matches_prune [simp]: "matches sel (prune P n) = matches sel n"
  by (cases n; cases sel) simp_all

lemma select_prune:
  "select sels (prune (matches_any sels) n) = []"
proof -
  have "\<And>d. d \<in> set (descendants (prune (matches_any sels) n)) \<Longrightarrow> \<not> matches_any sels d"
  proof (induction n)
    case (Text i s)
    then show ?case by simp
  next
    case (Element i t a ks)
    then obtain k where k: "k \<in> set ks" "\<not> matches_any sels k"
        "d = prune (matches_any sels) k \<or> d \<in> set (descendants (prune (matches_any sels) k))"
      by auto
    have "\<not> matches_any sels (prune (matches_any sels) k)"
      using k(2) by (simp add: matches_any_def)
    then show ?case using k Element.IH by auto
  qed
  then show ?thesis by (simp add: select_def filter_empty_conv)
qed

text \<open>
  Claim C4. On a 200 response, in the region the first matching selector gives, the
  nodes \<^verbatim>\<open>select\<close> returns for \<^verbatim>\<open>nav, .breadcrumb, .alert, .feedback-section\<close> are the
  nodes strictly below the region that are a \<^verbatim>\<open>nav\<close> tag or carry one of the three
  classes. After the loop none of them is left below the region, and the string
  returned is assembled from the text nodes of the region that lie in none of those
  subtrees, and from no other: no text node inside a removed subtree contributes.
\<close>

theorem unwanted_subtrees_removed:
  assumes "net (Get url []) = Reply 200 (Inr soup)"
    and "content_selectors = pre @ sel # post"
    and "\<forall>s \<in> set pre. select_one s soup = None"
    and "select_one sel soup = Some element"
    and "distinct (ids element)"
  shows "fst (get_page_content net c url) =
           take 5000 (join [CHR 0x0A] (filter (\<lambda>s. s \<noteq> [])
             (map (\<lambda>p. strip (snd p))
               (filter (\<lambda>p. \<not> (\<exists>u \<in> set (select unwanted_selectors element).
                                   p \<in> set (all_strings u)))
                 (all_strings element)))))
   \<and> select unwanted_selectors (remove_unwanted element) = []
   \<and> (\<forall>u. u \<in> set (select unwanted_selectors element) \<longleftrightarrow>
            u \<in> set (descendants element)
            \<and> (matches (TagSel ''nav'') u \<or> matches (ClassSel ''breadcrumb'') u
               \<or> matches (ClassSel ''alert'') u \<or> matches (ClassSel ''feedback-section'') u))"
proof -
  have e: "extract_content content_selectors soup =
      (get_text (remove_unwanted element), pre @ [sel])"
    using extract_content_first [of pre soup sel element post] assms(2,3,4) by simp
  have g: "fst (get_page_content net c url) = take 5000 (get_text (remove_unwanted element))"
    using get_page_content_page [of net url soup c] assms(1) e by simp
  have r: "remove_unwanted element = prune (matches_any unwanted_selectors) element"
    using assms(5) by (rule remove_unwanted_prune)
  have "(\<lambda>p. \<not> (\<exists>u \<in> set (descendants element).
                  matches_any unwanted_selectors u \<and> p \<in> set (all_strings u))) =
        (\<lambda>p. \<not> (\<exists>u \<in> set (select unwanted_selectors element). p \<in> set (all_strings u)))"
    by (auto simp: select_def)
  then have s: "all_strings (remove_unwanted element) =
      filter (\<lambda>p. \<not> (\<exists>u \<in> set (select unwanted_selectors element). p \<in> set (all_strings u)))
        (all_strings element)"
    using all_strings_prune [OF assms(5), of "matches_any unwanted_selectors"] r by simp
  have c1: "fst (get_page_content net c url) =
           take 5000 (join [CHR 0x0A] (filter (\<lambda>s. s \<noteq> [])
             (map (\<lambda>p. strip (snd p))
               (filter (\<lambda>p. \<not> (\<exists>u \<in> set (select unwanted_selectors element).
                                   p \<in> set (all_strings u)))
                 (all_strings element)))))"
    using g s by (simp add: get_text_def)
  have c2: "select unwanted_selectors (remove_unwanted element) = []"
    using r by (simp add: select_prune)
  have c3: "\<forall>u. u \<in> set (select unwanted_selectors element) \<longleftrightarrow>
            u \<in> set (descendants element)
            \<and> (matches (TagSel ''nav'') u \<or> matches (ClassSel ''breadcrumb'') u
               \<or> matches (ClassSel ''alert'') u \<or> matches (ClassSel ''feedback-section'') u)"
    by (simp add: select_def matches_any_def unwanted_selectors_def)
  show ?thesis using c1 c2 c3 by blast
qed

theorem unwanted_subtrees_removed_witness:
  "distinct (ids example_region)
   \<and> select_one (ClassSel ''content'') example_page = Some example_region
   \<and> map node_id (select unwanted_selectors example_region) = [5, 7, 9, 13]
   \<and> map fst (all_strings (remove_unwanted example_region)) = [4, 12]
   \<and> fst (get_page_content (\<lambda>r. Reply 200 (Inr example_page)) new_client
             ''https://learn.microsoft.com/en-us/azure'') = ''Hello'' @ [CHR 0x0A] @ ''World''"
proof -
  let ?url = "''https://learn.microsoft.com/en-us/azure''"
  have m1: "select_one (TagAttr ''main'' ''role'' ''main'') example_page = None"
    by code_simp
  have m2: "select_one (ClassSel ''content'') example_page = Some example_region"
    by code_simp
  have parts: "content_selectors =
      [TagAttr ''main'' ''role'' ''main''] @ ClassSel ''content'' # [TagSel ''article'', IdSel ''main-content'']"
    by (simp add: content_selectors_def)
  have pre: "\<forall>s \<in> set [TagAttr ''main'' ''role'' ''main'']. select_one s example_page = None"
    using m1 by simp
  have d: "distinct (ids example_region)"
    by code_simp
  note t = unwanted_subtrees_removed
    [of "\<lambda>r. Reply 200 (Inr example_page)" ?url example_page
        "[TagAttr ''main'' ''role'' ''main'']" "ClassSel ''content''"
        "[TagSel ''article'', IdSel ''main-content'']" example_region new_client,
     OF refl parts pre m2 d]
  have v: "take 5000 (join [CHR 0x0A] (filter (\<lambda>s. s \<noteq> [])
             (map (\<lambda>p. strip (snd p))
               (filter (\<lambda>p. \<not> (\<exists>u \<in> set (select unwanted_selectors example_region).
                                   p \<in> set (all_strings u)))
                 (all_strings example_region))))) = ''Hello'' @ [CHR 0x0A] @ ''World''"
    by code_simp
  have u: "map node_id (select unwanted_selectors example_region) = [5, 7, 9, 13]"
    by code_simp
  have k: "map fst (all_strings (remove_unwanted example_region)) = [4, 12]"
    by code_simp
  show ?thesis using t [THEN conjunct1] v u k d m2 by simp
qed

section \<open>Code examples: properties\<close>

lemma contains_sublist: "contains sub s = sublist sub s"
  by (induction s) (simp_all add: sublist_Cons_right startswith_prefix)

lemma lower_keywords:
  "keyword \<in> set example_keywords \<Longrightarrow> map lower_char keyword = keyword"
proof -
  have "map lower_char ''example'' = ''example''" by code_simp
  moreover have "map lower_char ''tutorial'' = ''tutorial''" by code_simp
  moreover have "map lower_char ''sample'' = ''sample''" by code_simp
  moreover have "map lower_char ''quickstart'' = ''quickstart''" by code_simp
  moreover have "map lower_char ''getting started'' = ''getting started''" by code_simp
  moreover assume "keyword \<in> set example_keywords"
  ultimately show ?thesis by (auto simp: example_keywords_def)
qed

lemma keyword_hit_well_shaped:
  assumes "well_shaped r" and "keyword \<in> set example_keywords"
  shows "keyword_hit keyword r =
     Inr (ci_substring keyword (field_text ''title'' r)
          \<or> ci_substring keyword (field_text ''description'' r))"
proof -
  obtain d t ds where r: "r = JObj d" "dict_get d ''title'' (JStr []) = JStr t"
      "dict_get d ''description'' (JStr []) = JStr ds"
    using assms(1)
    by (cases r; simp add: well_shaped_def)
       (metis is_str.elims(2))
  show ?thesis
    using r lower_keywords [OF assms(2)]
    by (simp add: keyword_hit_def field_text_def ci_substring_def contains_sublist lower_def)
qed

lemma any_keyword_well_shaped:
  assumes "well_shaped r" and "set ks \<subseteq> set example_keywords"
  shows "any_keyword ks r =
     Inr (\<exists>keyword \<in> set ks. ci_substring keyword (field_text ''title'' r)
                              \<or> ci_substring keyword (field_text ''description'' r))"
  using assms(2)
proof (induction ks)
  case Nil
  show ?case by simp
next
  case (Cons k ks)
  then show ?case
    using keyword_hit_well_shaped [OF assms(1), of k] by auto
qed

lemma keep_has_keyword:
  "well_shaped r \<Longrightarrow> any_keyword example_keywords r = Inr (has_keyword r)"
  using any_keyword_well_shaped [of r example_keywords]
  by (simp add: has_keyword_def example_keywords_def)

lemma code_example_well_shaped:
  "well_shaped r \<Longrightarrow> code_example r = Inr (as_code_example r)"
  by (cases r) (simp_all add: well_shaped_def code_example_def as_code_example_def)

lemma collect_examples_well_shaped:
  "(\<And>r. r \<in> set rs \<Longrightarrow> well_shaped r) \<Longrightarrow>
   collect_examples rs = Inr (map as_code_example (filter has_keyword rs))"
  by (induction rs) (simp_all add: keep_has_keyword code_example_well_shaped)

text \<open>
  Claim C7, as amended. For every sequence of search results that are records of the
  data model (dicts whose title and description, where present, are strings),
  \<^verbatim>\<open>find_code_examples\<close> returns one entry for each record whose title or description
  contains one of \<^verbatim>\<open>example\<close>, \<^verbatim>\<open>tutorial\<close>, \<^verbatim>\<open>sample\<close>, \<^verbatim>\<open>quickstart\<close>,
  \<^verbatim>\<open>getting started\<close>, letter case ignored, and no entry for any other record; the
  entries keep the order of the records.
\<close>

theorem find_code_examples_filter:
  assumes "fst (search_docs net c (build_query technology programming_language scenario)
                  [] ''en-us'' 5) = JArr results"
    and "\<forall>r \<in> set results. well_shaped r"
  shows "fst (find_code_examples net c technology programming_language scenario) =
           map as_code_example (filter has_keyword results)"
  using assms
  by (simp add: find_code_examples_def Let_def filter_code_examples_def
        collect_examples_well_shaped)

theorem find_code_examples_filter_witness:
  "well_shaped (example_results ! 0) \<and> well_shaped (example_results ! 1)
   \<and> well_shaped (example_results ! 2)
   \<and> has_keyword (example_results ! 0) \<and> \<not> has_keyword (example_results ! 1)
   \<and> has_keyword (example_results ! 2)
   \<and> fst (find_code_examples (\<lambda>r. Reply 200 (Inr (JObj [(''results'', JArr example_results)])))
             new_client ''React'' [] ''authentication'') =
        [JObj [(''title'', JStr ''Azure Functions QUICKSTART''),
               (''url'', JStr ''https://learn.microsoft.com/a''),
               (''description'', JStr ''Create a function''),
               (''type'', JStr ''code_example'')],
         JObj [(''title'', JStr []),
               (''url'', JStr ''https://learn.microsoft.com/c''),
               (''description'', JStr ''A Getting Started guide''),
               (''type'', JStr ''code_example'')]]"
proof -
  let ?net = "\<lambda>r. Reply 200 (Inr (JObj [(''results'', JArr example_results)]))"
  have s: "fst (search_docs ?net new_client (build_query ''React'' [] ''authentication'')
                  [] ''en-us'' 5) = JArr example_results"
    by (simp add: search_docs_def Let_def dict_get_def)
  have w: "\<forall>r \<in> set example_results. well_shaped r"
    by code_simp
  have w3: "well_shaped (example_results ! 0) \<and> well_shaped (example_results ! 1)
      \<and> well_shaped (example_results ! 2)"
    by code_simp
  have h: "has_keyword (example_results ! 0) \<and> \<not> has_keyword (example_results ! 1)
      \<and> has_keyword (example_results ! 2)"
    by code_simp
  have f: "map as_code_example (filter has_keyword example_results) =
        [JObj [(''title'', JStr ''Azure Functions QUICKSTART''),
               (''url'', JStr ''https://learn.microsoft.com/a''),
               (''description'', JStr ''Create a function''),
               (''type'', JStr ''code_example'')],
         JObj [(''title'', JStr []),
               (''url'', JStr ''https://learn.microsoft.com/c''),
               (''description'', JStr ''A Getting Started guide''),
               (''type'', JStr ''code_example'')]]"
    by code_simp
  have "fst (find_code_examples ?net new_client ''React'' [] ''authentication'') =
          map as_code_example (filter has_keyword example_results)"
    using s w by (rule find_code_examples_filter)
  then show ?thesis using w3 h f by simp
qed

text \<open>
  The claim as stated, for every sequence of search results, fails on a payload the
  200 path passes through: the one record has \<^verbatim>\<open>tutorial\<close> in its title and
  \<^verbatim>\<open>null\<close> as its description. The first keyword is not in the title, so the
  description is lower-cased, which raises; the call returns the error record and the
  record is not kept.
\<close>

theorem find_code_examples_filter_counterexample:
  "has_keyword (JObj [(''title'', JStr ''My Tutorial''), (''description'', JNull)])
   \<and> fst (find_code_examples
            (\<lambda>r. Reply 200 (Inr (JObj [(''results'',
                     JArr [JObj [(''title'', JStr ''My Tutorial''), (''description'', JNull)]])])))
            new_client ''React'' [] ''authentication'') =
       [JObj [(''error'',
              JStr (''Failed to find code examples: '' @ [CHR 0x27] @ ''NoneType'' @ [CHR 0x27]
                    @ '' object has no attribute '' @ [CHR 0x27] @ ''lower'' @ [CHR 0x27]))]]
   \<and> fst (find_code_examples
            (\<lambda>r. Reply 200 (Inr (JObj [(''results'',
                     JArr [JObj [(''title'', JStr ''My Tutorial''), (''description'', JNull)]])])))
            new_client ''React'' [] ''authentication'') \<noteq>
       map as_code_example
         (filter has_keyword [JObj [(''title'', JStr ''My Tutorial''), (''description'', JNull)]])"
proof -
  let ?r = "JObj [(''title'', JStr ''My Tutorial''), (''description'', JNull)]"
  let ?net = "\<lambda>r. Reply 200 (Inr (JObj [(''results'', JArr [?r])]))"
  have h: "has_keyword ?r"
    by code_simp
  have s: "fst (search_docs ?net new_client (build_query ''React'' [] ''authentication'')
                  [] ''en-us'' 5) = JArr [?r]"
    by (simp add: search_docs_def Let_def dict_get_def)
  have c: "collect_examples [?r] = Inl (AttributeError ''NoneType'' ''lower'')"
    by code_simp
  have out: "fst (find_code_examples ?net new_client ''React'' [] ''authentication'') =
       [JObj [(''error'',
              JStr (''Failed to find code examples: '' @ [CHR 0x27] @ ''NoneType'' @ [CHR 0x27]
                    @ '' object has no attribute '' @ [CHR 0x27] @ ''lower'' @ [CHR 0x27]))]]"
    using s c by (simp add: find_code_examples_def Let_def filter_code_examples_def examples_failed_def)
  have kept: "map as_code_example (filter has_keyword [?r]) =
       [JObj [(''title'', JStr ''My Tutorial''), (''url'', JStr []), (''description'', JNull),
              (''type'', JStr ''code_example'')]]"
    using h by (simp add: as_code_example_def dict_get_def)
  show ?thesis using h out kept by simp
qed

end
